theory Spec2Isabelle
  imports Main
begin

section \<open>Command arguments (command.go, "Command arguments")\<close>

text \<open>
  The three kinds of argument slot, in the order of the source's \<open>iota\<close> constants.
\<close>

datatype cmdArgType = atMandatory | atOptional | atEllipse

text \<open>
  \<open>type cmdArg struct { name string; argType cmdArgType }\<close>. Go strings are byte
  sequences, as \<open>string\<close> is here.
\<close>

record cmdArg =
  name :: string
  argType :: cmdArgType

text \<open>
  A Go run-time panic, or the process ending inside the flag library
  (\<open>flag.ExitOnError\<close>): in both cases the caller never sees a return value.
\<close>

datatype abort = IndexOutOfRange | FlagPanic | FlagExit

text \<open>
  \<open>cmdArgFromString\<close>. The comparison with \<open>"..."\<close> comes first; the second test
  reads \<open>argPattern[0]\<close>, which panics on the empty string.
\<close>

definition cmdArgFromString :: "string \<Rightarrow> abort + cmdArg" where
  "cmdArgFromString argPattern =
     (if argPattern = ''...'' then Inr \<lparr>name = argPattern, argType = atEllipse\<rparr>
      else if length argPattern = 0 then Inl IndexOutOfRange
      else if argPattern ! 0 = CHR ''['' \<and> argPattern ! (length argPattern - 1) = CHR '']''
        then Inr \<lparr>name = argPattern, argType = atOptional\<rparr>
      else Inr \<lparr>name = ''<'' @ argPattern @ ''>'', argType = atMandatory\<rparr>)"

text \<open>
  \<open>cmdArgs.Validate\<close>: the \<open>range\<close> loop over the slots is the recursion on the
  slot list, the reassigned parameter \<open>args\<close> the argument of the recursive call.
  The result is Go's \<open>error\<close>: \<open>None\<close> is \<open>nil\<close>, \<open>Some m\<close> an error with
  message \<open>m\<close>.
  \<open>args[1:]\<close> is only evaluated on a non-empty slice, where it is \<open>drop 1\<close>.
\<close>

fun Validate :: "cmdArg list \<Rightarrow> string list \<Rightarrow> string option" where
  "Validate [] args =
     (if length args \<noteq> 0 then Some ''too many arguments'' else None)"
| "Validate (a # ca) args =
     (case argType a of
        atMandatory \<Rightarrow>
          if length args = 0 then Some ''too few arguments''
          else Validate ca (drop 1 args)
      | atOptional \<Rightarrow>
          if length args > 0 then Validate ca (drop 1 args) else Validate ca args
      | atEllipse \<Rightarrow> Validate ca [])"


section \<open>The flag-parsing context\<close>

text \<open>
  The standard library's \<open>flag\<close> package is outside the repository. What
  \<open>TryParse\<close> uses of a \<open>*flag.FlagSet\<close> is taken as a parameter, a record of
  operations over an arbitrary type \<open>'fs\<close> of flag sets:
  \<^item> \<open>NewFlagSet n\<close>: \<open>flag.NewFlagSet(n, flag.ExitOnError)\<close>;
  \<^item> \<open>Bool fs n\<close>: \<open>fs.Bool(n, false, "")\<close>, which may panic (a redefined flag);
  \<^item> \<open>Parse fs toks\<close>: \<open>fs.Parse(toks)\<close>, which may end the process;
  \<^item> \<open>Args fs\<close>: \<open>fs.Args()\<close>, the tokens left after the flags;
  \<^item> \<open>Visit fs\<close>: the names \<open>fs.Visit\<close> passes to its callback, the flags that were set;
  \<^item> \<open>BoolValue fs n\<close>: what the pointer returned by \<open>fs.Bool(n, ...)\<close> points to.
\<close>

record 'fs flagLib =
  NewFlagSet :: "string \<Rightarrow> 'fs"
  Bool :: "'fs \<Rightarrow> string \<Rightarrow> abort + 'fs"
  Parse :: "'fs \<Rightarrow> string list \<Rightarrow> abort + 'fs"
  Args :: "'fs \<Rightarrow> string list"
  Visit :: "'fs \<Rightarrow> string list"
  BoolValue :: "'fs \<Rightarrow> string \<Rightarrow> bool"

text \<open>
  \<open>flag.Arg(i)\<close> of the standard library on the positional residue \<open>flag.Args()\<close>:
  the empty string when there is no such token.
\<close>

definition flagArg :: "string list \<Rightarrow> nat \<Rightarrow> string" where
  "flagArg residue i = (if i < length residue then residue ! i else [])"

section \<open>Data model (command.go)\<close>

text \<open>
  \<open>type Cmd interface { Flags(*flag.FlagSet) *flag.FlagSet; Run(args []string) }\<close>.
  \<open>Run\<close> is only called by \<open>Run()\<close>, after parsing, and is left out. \<open>Flags\<close> is
  code of the application and may panic.
\<close>

record 'fs Cmd =
  Flags :: "'fs \<Rightarrow> abort + 'fs"

text \<open>
  \<open>type cmdCont struct\<close>. The field \<open>args\<close> is a slice that \<open>TryParse\<close> compares
  with \<open>nil\<close>: \<open>None\<close> is \<open>nil\<close>, \<open>Some []\<close> the empty non-nil slice.
\<close>

record 'fs cmdCont =
  name :: string
  desc :: string
  command :: "'fs Cmd"
  requiredFlags :: "string list"
  args :: "cmdArg list option"

record preArgDef =
  name :: string
  desc :: string
  val :: string

datatype TryParseReason =
  TryParseNoPreArg | TryParseNoCommand | TryParseInvalidCommand | TryParseArgError

record TryParseError =
  Reason :: TryParseReason
  Command :: string
  Message :: string

text \<open>
  The package-level variables. \<open>cmds\<close> maps a name to a pointer to its descriptor and
  \<open>matchingCmd\<close> is such a pointer or \<open>nil\<close>; descriptors are not changed by
  \<open>TryParse\<close>, so the pointers are modelled by the descriptors they point to.
  \<open>flagHelp\<close> is \<open>nil\<close> or points to the value of the flag \<open>h\<close>: \<open>Some b\<close> holds
  the value it points to.
\<close>

record 'fs globals =
  cmds :: "string \<rightharpoonup> 'fs cmdCont"
  preargdefs :: "preArgDef list"
  matchingCmd :: "'fs cmdCont option"
  args :: "string list"
  flagHelp :: "bool option"
  reserveHFlag :: bool
  helpPreargOverride :: bool

section \<open>Registration\<close>

text \<open>
  The initial values of the package-level variables.
\<close>

definition initGlobals :: "'fs globals" where
  "initGlobals =
     \<lparr>cmds = Map.empty, preargdefs = [], matchingCmd = None, globals.args = [],
      flagHelp = None, reserveHFlag = True, helpPreargOverride = False\<rparr>"

text \<open>
  \<open>CmdBuilder.Arguments\<close>, as its effect on the descriptor the builder points to:
  the slots parsed from the patterns are appended, after making a \<open>nil\<close> slice an
  empty one. A pattern on which \<open>cmdArgFromString\<close> panics ends the loop.
\<close>

fun appendArgs :: "cmdArg list \<Rightarrow> string list \<Rightarrow> abort + cmdArg list" where
  "appendArgs ca [] = Inr ca"
| "appendArgs ca (argstr # rest) =
     (case cmdArgFromString argstr of
        Inl e \<Rightarrow> Inl e
      | Inr a \<Rightarrow> appendArgs (ca @ [a]) rest)"

definition Arguments :: "'fs cmdCont \<Rightarrow> string list \<Rightarrow> abort + 'fs cmdCont" where
  "Arguments cont pats =
     (case appendArgs (case cmdCont.args cont of None \<Rightarrow> [] | Some ca \<Rightarrow> ca) pats of
        Inl e \<Rightarrow> Inl e
      | Inr ca \<Rightarrow> Inr (cont\<lparr>cmdCont.args := Some ca\<rparr>))"

text \<open>
  \<open>On\<close>: the new descriptor replaces any descriptor registered under the same name.
\<close>

definition On :: "string \<Rightarrow> string \<Rightarrow> 'fs Cmd \<Rightarrow> 'fs globals \<Rightarrow> 'fs globals" where
  "On cmdName description cmd g =
     g\<lparr>cmds := (cmds g)(cmdName \<mapsto>
          \<lparr>cmdCont.name = cmdName, cmdCont.desc = description, command = cmd,
           requiredFlags = [], cmdCont.args = None\<rparr>)\<rparr>"

text \<open>
  \<open>cmdUsageCmd\<close>, the built-in help command: its \<open>Flags\<close> returns the flag set as
  it is.
\<close>

definition cmdUsageCmd :: "'fs Cmd" where
  "cmdUsageCmd = \<lparr>Flags = Inr\<rparr>"

definition OnHelpShowUsage :: "'fs globals \<Rightarrow> 'fs globals" where
  "OnHelpShowUsage g =
     On ''help'' ''Displays usage string of commands'' cmdUsageCmd (g\<lparr>reserveHFlag := False\<rparr>)"

definition OnHelpIgnorePreargs :: "'fs globals \<Rightarrow> 'fs globals" where
  "OnHelpIgnorePreargs g = g\<lparr>helpPreargOverride := True\<rparr>"

text \<open>
  \<open>PreArg\<close>: the returned pointer is to the field \<open>val\<close> of the declaration appended.
\<close>

definition PreArg :: "string \<Rightarrow> string \<Rightarrow> 'fs globals \<Rightarrow> 'fs globals" where
  "PreArg preName description g =
     g\<lparr>preargdefs := preargdefs g @
          [\<lparr>preArgDef.name = preName, preArgDef.desc = description, val = []\<rparr>]\<rparr>"

definition clearPreArgs :: "'fs globals \<Rightarrow> 'fs globals" where
  "clearPreArgs g = g\<lparr>preargdefs := []\<rparr>"

section \<open>TryParse\<close>

text \<open>
  \<open>fmt.Sprintf("%d", n)\<close> for a length: the decimal digits.
\<close>

fun showNat :: "nat \<Rightarrow> string" where
  "showNat n =
     (if n < 10 then [''0123456789'' ! n]
      else showNat (n div 10) @ [''0123456789'' ! (n mod 10)])"

declare showNat.simps [simp del]

text \<open>
  The loop \<open>for i, preargdef := range preargdefs { preargdef.val = flag.Arg(i) }\<close>,
  from index \<open>i\<close> on.
\<close>

fun setPreargs :: "string list \<Rightarrow> nat \<Rightarrow> preArgDef list \<Rightarrow> preArgDef list" where
  "setPreargs residue i [] = []"
| "setPreargs residue i (preargdef # rest) =
     preargdef\<lparr>val := flagArg residue i\<rparr> # setPreargs residue (Suc i) rest"

text \<open>
  The value of the local variable \<open>consumePreargs\<close>; \<open>residue\<close> is
  \<open>flag.Args()\<close>, the tokens left after the global flags, so that \<open>flag.NArg()\<close> is
  its length.
\<close>

definition consumePreargs :: "'fs globals \<Rightarrow> string list \<Rightarrow> bool" where
  "consumePreargs g residue =
     ((helpPreargOverride g \<and> \<not> (length residue > 0 \<and> flagArg residue 0 = ''help''))
      \<or> \<not> helpPreargOverride g)"

text \<open>
  The per-command flag parse: the command declares its flags into a new flag set, the
  flag \<open>h\<close> is added when \<open>reserveHFlag\<close> is set, and the tokens after the command name
  are parsed. Each of the three steps may panic or end the process.
\<close>

definition cmdFlagParse ::
  "'fs flagLib \<Rightarrow> bool \<Rightarrow> 'fs cmdCont \<Rightarrow> string \<Rightarrow> string list \<Rightarrow> abort + 'fs"
where
  "cmdFlagParse lib reserveH cont cmdName toks =
     (case Flags (command cont) (NewFlagSet lib cmdName) of
        Inl e \<Rightarrow> Inl e
      | Inr fs0 \<Rightarrow>
          (case (if reserveH then Bool lib fs0 ''h'' else Inr fs0) of
             Inl e \<Rightarrow> Inl e
           | Inr fs1 \<Rightarrow> Parse lib fs1 toks))"

text \<open>
  \<open>TryParse\<close>, from the point where \<open>flag.Parse()\<close> has returned. The result is
  \<open>Inl\<close> when the process panics or exits inside the call, and otherwise the returned
  \<open>error\<close> (\<open>None\<close> for \<open>nil\<close>) with the package-level variables as the call leaves
  them. \<open>len(flagMap) > 0\<close> holds when a required flag is left after deleting the
  visited ones.
\<close>

definition TryParse ::
  "'fs flagLib \<Rightarrow> string list \<Rightarrow> 'fs globals \<Rightarrow> abort + (TryParseError option \<times> 'fs globals)"
where
  "TryParse lib residue g =
     (if cmds g = Map.empty then Inr (None, g)
      else
        let commandNameArgN = (if consumePreargs g residue then length (preargdefs g) else 0);
            expectedArgCount = (if consumePreargs g residue then commandNameArgN + 1 else 1)
        in
        if consumePreargs g residue \<and> length residue < expectedArgCount - 1 then
          Inr (Some \<lparr>Reason = TryParseNoPreArg, Command = [],
                     Message = ''expected '' @ showNat (expectedArgCount - 1)
                               @ '' argument(s) before command''\<rparr>, g)
        else
          let g1 = (if consumePreargs g residue
                    then g\<lparr>preargdefs := setPreargs residue 0 (preargdefs g)\<rparr> else g)
          in
          if length residue < expectedArgCount then
            Inr (Some \<lparr>Reason = TryParseNoCommand, Command = [],
                       Message = ''missing command''\<rparr>, g1)
          else
            let cmdName = flagArg residue commandNameArgN in
            case cmds g1 cmdName of
              None \<Rightarrow>
                Inr (Some \<lparr>Reason = TryParseInvalidCommand, Command = [],
                           Message = ''invalid command: '' @ cmdName\<rparr>, g1)
            | Some cont \<Rightarrow>
                (case cmdFlagParse lib (reserveHFlag g1) cont cmdName
                        (drop (commandNameArgN + 1) residue) of
                   Inl e \<Rightarrow> Inl e
                 | Inr fs \<Rightarrow>
                     let g2 = g1\<lparr>flagHelp :=
                                    (if reserveHFlag g1 then Some (BoolValue lib fs ''h'')
                                     else flagHelp g1),
                                 globals.args := Args lib fs,
                                 matchingCmd := Some cont\<rparr>
                     in
                     if [flagName \<leftarrow> requiredFlags cont.
                           flagName \<notin> set (Visit lib fs)] \<noteq> [] then
                       Inr (Some \<lparr>Reason = TryParseInvalidCommand, Command = cmdName,
                                  Message = cmdName @ '': missing required flags''\<rparr>, g2)
                     else
                       (case cmdCont.args cont of
                          None \<Rightarrow> Inr (None, g2)
                        | Some ca \<Rightarrow>
                            (case Validate ca (globals.args g2) of
                               Some err \<Rightarrow>
                                 Inr (Some \<lparr>Reason = TryParseArgError, Command = cmdName,
                                            Message = cmdName @ '': '' @ err\<rparr>, g2)
                             | None \<Rightarrow> Inr (None, g2)))))"

section \<open>A flag-parsing context for concrete runs\<close>

text \<open>
  A small instance of the library parameter, used only to run \<open>TryParse\<close> on concrete
  command lines; every general theorem below holds for any library. It knows boolean
  flags written \<open>-name\<close>: parsing stops at the first token that is not of this form,
  and an undeclared flag ends the process.
\<close>

record testFlagSet =
  tfFormal :: "string list"
  tfActual :: "string list"
  tfArgs :: "string list"

fun testParse :: "testFlagSet \<Rightarrow> string list \<Rightarrow> abort + testFlagSet" where
  "testParse fs [] = Inr (fs\<lparr>tfArgs := []\<rparr>)"
| "testParse fs ([] # ts) = Inr (fs\<lparr>tfArgs := [] # ts\<rparr>)"
| "testParse fs ((c # n) # ts) =
     (if c = CHR ''-'' \<and> n \<noteq> [] then
        (if n \<in> set (tfFormal fs) then testParse (fs\<lparr>tfActual := tfActual fs @ [n]\<rparr>) ts
         else Inl FlagExit)
      else Inr (fs\<lparr>tfArgs := (c # n) # ts\<rparr>))"

definition testLib :: "testFlagSet flagLib" where
  "testLib =
     \<lparr>NewFlagSet = (\<lambda>n. \<lparr>tfFormal = [], tfActual = [], tfArgs = []\<rparr>),
      Bool = (\<lambda>fs n. if n \<in> set (tfFormal fs) then Inl FlagPanic
                       else Inr (fs\<lparr>tfFormal := tfFormal fs @ [n]\<rparr>)),
      Parse = testParse,
      Args = tfArgs,
      Visit = tfActual,
      BoolValue = (\<lambda>fs n. n \<in> set (tfActual fs))\<rparr>"

text \<open>
  The command of the package's tests: \<open>testCmd1.Flags\<close> declares the boolean flag
  \<open>flag1\<close>.
\<close>

definition testCmd1 :: "testFlagSet Cmd" where
  "testCmd1 = \<lparr>Flags = (\<lambda>fs. Bool testLib fs ''flag1'')\<rparr>"

text \<open>
  The registry of the tests \<open>TestTryParseMinArgs\<close>:
  \<open>On("command1", "", c1).Arguments("this", "that")\<close>.
\<close>

definition command1Cont :: "testFlagSet cmdCont" where
  "command1Cont =
     \<lparr>cmdCont.name = ''command1'', cmdCont.desc = [], command = testCmd1,
      requiredFlags = [],
      cmdCont.args = Some [\<lparr>cmdArg.name = ''<this>'', argType = atMandatory\<rparr>,
                           \<lparr>cmdArg.name = ''<that>'', argType = atMandatory\<rparr>]\<rparr>"

definition command1Globals :: "testFlagSet globals" where
  "command1Globals = initGlobals\<lparr>cmds := [''command1'' \<mapsto> command1Cont]\<rparr>"

text \<open>
  A command \<open>deploy\<close> that declares the boolean flag \<open>force\<close>, requires it, and
  takes one argument, \<open>env\<close>.
\<close>

definition deployCont :: "testFlagSet cmdCont" where
  "deployCont =
     \<lparr>cmdCont.name = ''deploy'', cmdCont.desc = [],
      command = \<lparr>Flags = (\<lambda>fs. Bool testLib fs ''force'')\<rparr>,
      requiredFlags = [''force''],
      cmdCont.args = Some [\<lparr>cmdArg.name = ''<env>'', argType = atMandatory\<rparr>]\<rparr>"

definition deployGlobals :: "testFlagSet globals" where
  "deployGlobals = initGlobals\<lparr>cmds := [''deploy'' \<mapsto> deployCont]\<rparr>"

text \<open>
  The registry of the test \<open>TestTryParseWithHelpPreargOverride\<close>: the help bypass
  and the help command are enabled, one pre-argument is declared and \<open>command1\<close> is
  registered.
\<close>

definition helpOverrideGlobals :: "testFlagSet globals" where
  "helpOverrideGlobals =
     On ''command1'' [] testCmd1
       (PreArg ''pa'' ''this is a prearg'' (OnHelpShowUsage (OnHelpIgnorePreargs initGlobals)))"

text \<open>
  A registry with the help bypass enabled whose command \<open>help\<close> takes one argument,
  \<open>topic\<close>: \<open>On("help", "", c1).Arguments("topic")\<close>.
\<close>

definition helpTopicCont :: "testFlagSet cmdCont" where
  "helpTopicCont =
     \<lparr>cmdCont.name = ''help'', cmdCont.desc = [], command = testCmd1,
      requiredFlags = [],
      cmdCont.args = Some [\<lparr>cmdArg.name = ''<topic>'', argType = atMandatory\<rparr>]\<rparr>"

definition helpTopicGlobals :: "testFlagSet globals" where
  "helpTopicGlobals = (OnHelpIgnorePreargs initGlobals)\<lparr>cmds := [''help'' \<mapsto> helpTopicCont]\<rparr>"

section \<open>The walk over the slots, in the specification's words\<close>

text \<open>
  What one slot consumes of the remaining tokens: a Mandatory slot one token, an
  Optional slot one token only if any remain, a Variadic slot all of them.
\<close>

definition slotConsumes :: "cmdArg \<Rightarrow> string list \<Rightarrow> string list" where
  "slotConsumes a toks =
     (case argType a of
        atMandatory \<Rightarrow> drop 1 toks
      | atOptional \<Rightarrow> (if toks \<noteq> [] then drop 1 toks else toks)
      | atEllipse \<Rightarrow> [])"

text \<open>
  The tokens that remain after the slots have been walked left-to-right.
\<close>

definition remainingAfter :: "cmdArg list \<Rightarrow> string list \<Rightarrow> string list" where
  "remainingAfter slots supplied = foldl (\<lambda>toks a. slotConsumes a toks) supplied slots"

datatype ValidationOutcome = OK | TooFew | TooMany

text \<open>
  The outcome as the specification words it: \<open>TooFew\<close> if a Mandatory slot has no
  remaining token, \<open>TooMany\<close> if tokens remain after all slots are consumed, else
  \<open>OK\<close>.
\<close>

definition specValidate :: "cmdArg list \<Rightarrow> string list \<Rightarrow> ValidationOutcome" where
  "specValidate slots supplied =
     (if \<exists>i<length slots. argType (slots ! i) = atMandatory
                          \<and> remainingAfter (take i slots) supplied = []
      then TooFew
      else if remainingAfter slots supplied \<noteq> [] then TooMany
      else OK)"

text \<open>
  The \<open>error\<close> that \<open>Validate\<close> returns for each outcome.
\<close>

definition outcomeError :: "ValidationOutcome \<Rightarrow> string option" where
  "outcomeError r =
     (case r of
        OK \<Rightarrow> None
      | TooFew \<Rightarrow> Some ''too few arguments''
      | TooMany \<Rightarrow> Some ''too many arguments'')"

section \<open>Lemmas on the slot walk\<close>

lemma remainingAfter_Nil: "remainingAfter [] toks = toks"
  by (simp add: remainingAfter_def)

lemma remainingAfter_Cons:
  "remainingAfter (a # ca) toks = remainingAfter ca (slotConsumes a toks)"
  by (simp add: remainingAfter_def)

lemma ex_less_Suc_shift: "(\<exists>i<Suc n. P i) \<longleftrightarrow> P 0 \<or> (\<exists>i<n. P (Suc i))"
  by (metis less_Suc_eq_0_disj)

lemma specValidate_Nil: "specValidate [] toks = (if toks \<noteq> [] then TooMany else OK)"
  by (simp add: specValidate_def remainingAfter_Nil)

lemma specValidate_Cons:
  "specValidate (a # ca) toks =
     (if argType a = atMandatory \<and> toks = [] then TooFew
      else specValidate ca (slotConsumes a toks))"
  unfolding specValidate_def
  by (simp only: length_Cons ex_less_Suc_shift nth_Cons_0 nth_Cons_Suc take_Suc_Cons take_0
        remainingAfter_Nil remainingAfter_Cons) auto

lemma Validate_append:
  "\<forall>i<length pre. argType (pre ! i) = atMandatory \<longrightarrow> remainingAfter (take i pre) toks \<noteq> []
   \<Longrightarrow> Validate (pre @ post) toks = Validate post (remainingAfter pre toks)"
proof (induction pre arbitrary: toks)
  case Nil
  show ?case by (simp add: remainingAfter_Nil)
next
  case (Cons a pre)
  have step: "\<forall>i<length pre. argType (pre ! i) = atMandatory \<longrightarrow>
                remainingAfter (take i pre) (slotConsumes a toks) \<noteq> []"
  proof (intro allI impI)
    fix i assume "i < length pre" "argType (pre ! i) = atMandatory"
    with Cons.prems [rule_format, of "Suc i"]
    show "remainingAfter (take i pre) (slotConsumes a toks) \<noteq> []"
      by (simp add: remainingAfter_Cons)
  qed
  have first: "argType a = atMandatory \<Longrightarrow> toks \<noteq> []"
    using Cons.prems [rule_format, of 0] by (simp add: remainingAfter_Nil)
  show ?case
  proof (cases "argType a")
    case atMandatory
    with first have "toks \<noteq> []" by simp
    with atMandatory Cons.IH [OF step] show ?thesis
      by (simp add: remainingAfter_Cons slotConsumes_def)
  next
    case atOptional
    with Cons.IH [OF step] show ?thesis
      by (cases toks) (simp_all add: remainingAfter_Cons slotConsumes_def)
  next
    case atEllipse
    with Cons.IH [OF step] show ?thesis
      by (simp add: remainingAfter_Cons slotConsumes_def)
  qed
qed

lemma Validate_no_mandatory_Nil:
  "\<forall>a\<in>set post. argType a \<noteq> atMandatory \<Longrightarrow> Validate post [] = None"
proof (induction post)
  case Nil
  show ?case by simp
next
  case (Cons a post)
  then show ?case by (cases "argType a") simp_all
qed

lemma Validate_all_mandatory:
  "\<forall>a\<in>set ca. argType a = atMandatory \<Longrightarrow>
   Validate ca toks =
     (if length toks < length ca then Some ''too few arguments''
      else if length toks = length ca then None
      else Some ''too many arguments'')"
proof (induction ca arbitrary: toks)
  case Nil
  then show ?case by simp
next
  case (Cons a ca)
  then show ?case by (cases toks) auto
qed

lemma remainingAfter_empty: "remainingAfter ca [] = []"
proof (induction ca)
  case Nil
  show ?case by (simp add: remainingAfter_Nil)
next
  case (Cons a ca)
  then show ?case
    by (cases "argType a") (simp_all add: remainingAfter_Cons slotConsumes_def)
qed

lemma remainingAfter_append:
  "remainingAfter (xs @ ys) toks = remainingAfter ys (remainingAfter xs toks)"
  by (simp add: remainingAfter_def)

lemma starved_remaining_empty:
  assumes "i < length ca" "remainingAfter (take i ca) toks = []"
  shows "remainingAfter ca toks = []"
proof -
  have "remainingAfter ca toks = remainingAfter (take i ca @ drop i ca) toks"
    by simp
  also have "\<dots> = remainingAfter (drop i ca) []"
    using assms by (simp only: remainingAfter_append)
  finally show ?thesis by (simp add: remainingAfter_empty)
qed

lemma Validate_refines: "Validate ca toks = outcomeError (specValidate ca toks)"
proof (induction ca arbitrary: toks)
  case Nil
  show ?case by (simp add: specValidate_Nil outcomeError_def)
next
  case (Cons a ca)
  show ?case
  proof (cases "argType a")
    case atMandatory
    then show ?thesis
      by (simp add: specValidate_Cons Cons.IH slotConsumes_def outcomeError_def)
  next
    case atOptional
    then show ?thesis
      by (simp add: specValidate_Cons Cons.IH slotConsumes_def)
  next
    case atEllipse
    then show ?thesis
      by (simp add: specValidate_Cons Cons.IH slotConsumes_def)
  qed
qed

section \<open>The slot parser and the validator\<close>

text \<open>
  C1. \<open>Validate\<close> walks the slots left-to-right: a Mandatory slot consumes one
  remaining token, an Optional slot one token only if any remain, a Variadic slot all
  remaining tokens. Its result is the outcome the specification words. It returns the
  too-few error exactly when some Mandatory slot finds no remaining token, the
  too-many error exactly when tokens remain after all slots, and \<open>nil\<close> exactly when
  neither happens.
\<close>

theorem Validate_walk:
  "Validate ca toks = outcomeError (specValidate ca toks)
   \<and> (Validate ca toks = Some ''too few arguments'' \<longleftrightarrow>
        (\<exists>i<length ca. argType (ca ! i) = atMandatory
                        \<and> remainingAfter (take i ca) toks = []))
   \<and> (Validate ca toks = Some ''too many arguments'' \<longleftrightarrow> remainingAfter ca toks \<noteq> [])
   \<and> (Validate ca toks = None \<longleftrightarrow>
        \<not> (\<exists>i<length ca. argType (ca ! i) = atMandatory
                          \<and> remainingAfter (take i ca) toks = [])
        \<and> remainingAfter ca toks = [])"
proof -
  have r: "Validate ca toks = outcomeError (specValidate ca toks)"
    by (rule Validate_refines)
  have s: "(\<exists>i<length ca. argType (ca ! i) = atMandatory
                        \<and> remainingAfter (take i ca) toks = [])
           \<Longrightarrow> remainingAfter ca toks = []"
    using starved_remaining_empty by blast
  show ?thesis
  proof (cases "\<exists>i<length ca. argType (ca ! i) = atMandatory
                        \<and> remainingAfter (take i ca) toks = []")
    case True
    with s [OF True] show ?thesis
      unfolding r by (simp add: specValidate_def outcomeError_def)
  next
    case False
    then show ?thesis
      unfolding r by (simp add: specValidate_def outcomeError_def)
  qed
qed

theorem Validate_walk_witness:
  "specValidate [\<lparr>cmdArg.name = ''<branch>'', argType = atMandatory\<rparr>,
                 \<lparr>cmdArg.name = ''[remote]'', argType = atOptional\<rparr>] [] = TooFew
   \<and> Validate [\<lparr>cmdArg.name = ''<branch>'', argType = atMandatory\<rparr>,
                \<lparr>cmdArg.name = ''[remote]'', argType = atOptional\<rparr>] []
       = Some ''too few arguments''"
proof -
  have spec: "specValidate [\<lparr>cmdArg.name = ''<branch>'', argType = atMandatory\<rparr>,
                            \<lparr>cmdArg.name = ''[remote]'', argType = atOptional\<rparr>] [] = TooFew"
    by (simp add: specValidate_Cons)
  with Validate_walk [of "[\<lparr>cmdArg.name = ''<branch>'', argType = atMandatory\<rparr>,
                           \<lparr>cmdArg.name = ''[remote]'', argType = atOptional\<rparr>]" "[]",
                      THEN conjunct1]
  show ?thesis by (simp add: outcomeError_def)
qed

text \<open>
  C5, as amended. For an argument specification with a Variadic slot that no Mandatory
  slot follows, and a token list in which each Mandatory slot before the Variadic slot
  finds a remaining token, \<open>Validate\<close> returns \<open>nil\<close>, however many tokens there are.
\<close>

theorem Validate_variadic_ok:
  assumes "argType v = atEllipse"
    and "\<forall>a\<in>set post. argType a \<noteq> atMandatory"
    and "\<forall>i<length pre. argType (pre ! i) = atMandatory
                          \<longrightarrow> remainingAfter (take i pre) toks \<noteq> []"
  shows "Validate (pre @ v # post) toks = None"
  using assms by (simp add: Validate_append Validate_no_mandatory_Nil)

theorem Validate_variadic_ok_witness:
  "Validate [\<lparr>cmdArg.name = ''<branch>'', argType = atMandatory\<rparr>,
             \<lparr>cmdArg.name = ''...'', argType = atEllipse\<rparr>]
            [''main'', ''a'', ''b'', ''c''] = None"
  using Validate_variadic_ok
          [of "\<lparr>cmdArg.name = ''...'', argType = atEllipse\<rparr>" "[]"
              "[\<lparr>cmdArg.name = ''<branch>'', argType = atMandatory\<rparr>]"
              "[''main'', ''a'', ''b'', ''c'']"]
  by (simp add: remainingAfter_def)

text \<open>
  C5 as stated fails when a Mandatory slot follows the Variadic slot: no Mandatory
  slot precedes the Variadic one, and the result is still the too-few error.
\<close>

theorem Validate_variadic_counterexample:
  "Validate [\<lparr>cmdArg.name = ''...'', argType = atEllipse\<rparr>,
             \<lparr>cmdArg.name = ''<x>'', argType = atMandatory\<rparr>] [''a'']
     = Some ''too few arguments''"
  by simp

text \<open>
  C9. On a non-empty pattern the slot parser returns, in this order of priority: for
  the pattern \<open>...\<close> a Variadic slot; for a pattern whose first character is \<open>[\<close> and
  whose last character is \<open>]\<close> an Optional slot named by the pattern, brackets
  included; for any other pattern a Mandatory slot named by the pattern in angle
  brackets.
\<close>

theorem cmdArgFromString_classifies:
  "argPattern \<noteq> [] \<Longrightarrow>
   cmdArgFromString argPattern =
     Inr (if argPattern = ''...'' then \<lparr>cmdArg.name = ''...'', argType = atEllipse\<rparr>
          else if hd argPattern = CHR ''['' \<and> last argPattern = CHR '']''
            then \<lparr>cmdArg.name = argPattern, argType = atOptional\<rparr>
          else \<lparr>cmdArg.name = ''<'' @ argPattern @ ''>'', argType = atMandatory\<rparr>)"
  by (simp add: cmdArgFromString_def hd_conv_nth last_conv_nth)

theorem cmdArgFromString_classifies_witness:
  "''[name]'' \<noteq> []
   \<and> cmdArgFromString ''[name]'' = Inr \<lparr>cmdArg.name = ''[name]'', argType = atOptional\<rparr>"
  using cmdArgFromString_classifies [of "''[name]''"] by simp

section \<open>Lemmas on TryParse\<close>

lemma required_filter_conv:
  "([flagName \<leftarrow> rs. flagName \<notin> set vs] \<noteq> []) = (\<not> set rs \<subseteq> set vs)"
  by (auto simp: filter_empty_conv)

lemma setPreargs_map2:
  "i + length ds \<le> length residue \<Longrightarrow>
   setPreargs residue i ds = map2 (\<lambda>d t. d\<lparr>val := t\<rparr>) ds (drop i residue)"
proof (induction ds arbitrary: i)
  case Nil
  show ?case by simp
next
  case (Cons d ds)
  then have i: "i < length residue" and rest: "Suc i + length ds \<le> length residue"
    by simp_all
  from i have "drop i residue = residue ! i # drop (Suc i) residue"
    by (simp add: Cons_nth_drop_Suc)
  with i Cons.IH [OF rest] show ?case
    by (simp add: flagArg_def)
qed

lemma TryParse_NoPreArg:
  assumes "cmds g \<noteq> Map.empty" "consumePreargs g residue" "length residue < length (preargdefs g)"
  shows "TryParse lib residue g =
     Inr (Some \<lparr>Reason = TryParseNoPreArg, Command = [],
                Message = ''expected '' @ showNat (length (preargdefs g))
                               @ '' argument(s) before command''\<rparr>, g)"
  using assms by (simp add: TryParse_def Let_def)

lemma TryParse_NoCommand:
  assumes "cmds g \<noteq> Map.empty"
    and "n = (if consumePreargs g residue then length (preargdefs g) else 0)"
    and "length residue = n"
  shows "TryParse lib residue g =
     Inr (Some \<lparr>Reason = TryParseNoCommand, Command = [], Message = ''missing command''\<rparr>,
          (if consumePreargs g residue
                then g\<lparr>preargdefs := setPreargs residue 0 (preargdefs g)\<rparr> else g))"
  using assms by (simp add: TryParse_def Let_def)

lemma TryParse_named:
  assumes ne: "cmds g \<noteq> Map.empty"
    and n: "n = (if consumePreargs g residue then length (preargdefs g) else 0)"
    and len: "n < length residue"
  shows "TryParse lib residue g =
     (let g1 = (if consumePreargs g residue
                then g\<lparr>preargdefs := setPreargs residue 0 (preargdefs g)\<rparr> else g) in
      case cmds g (residue ! n) of
        None \<Rightarrow> Inr (Some \<lparr>Reason = TryParseInvalidCommand, Command = [],
                           Message = ''invalid command: '' @ residue ! n\<rparr>, g1)
      | Some cont \<Rightarrow>
         (case cmdFlagParse lib (reserveHFlag g) cont (residue ! n) (drop (n + 1) residue) of
            Inl e \<Rightarrow> Inl e
          | Inr fs \<Rightarrow>
             let g2 = g1\<lparr>flagHelp := (if reserveHFlag g then Some (BoolValue lib fs ''h'')
                                       else flagHelp g),
                         globals.args := Args lib fs,
                         matchingCmd := Some cont\<rparr> in
             if \<not> set (requiredFlags cont) \<subseteq> set (Visit lib fs) then
                Inr (Some \<lparr>Reason = TryParseInvalidCommand, Command = residue ! n,
                                  Message = residue ! n @ '': missing required flags''\<rparr>, g2)
             else (case cmdCont.args cont of
                          None \<Rightarrow> Inr (None, g2)
                        | Some ca \<Rightarrow>
                            (case Validate ca (Args lib fs) of
                               Some err \<Rightarrow>
                                 Inr (Some \<lparr>Reason = TryParseArgError, Command = residue ! n,
                                            Message = residue ! n @ '': '' @ err\<rparr>, g2)
                             | None \<Rightarrow> Inr (None, g2)))))"
proof (cases "consumePreargs g residue")
  case True
  with n have n': "n = length (preargdefs g)" by simp
  from True ne len n' show ?thesis
    unfolding TryParse_def Let_def required_filter_conv flagArg_def
    by (simp cong: option.case_cong sum.case_cong if_cong)
next
  case False
  with n have n': "n = 0" by simp
  from False ne len n' show ?thesis
    unfolding TryParse_def Let_def required_filter_conv flagArg_def
    by (simp cong: option.case_cong sum.case_cong if_cong)
qed

lemma length_setPreargs: "length (setPreargs residue i ds) = length ds"
  by (induction ds arbitrary: i) simp_all

lemma nth_setPreargs:
  "k < length ds \<Longrightarrow> setPreargs residue i ds ! k = (ds ! k)\<lparr>val := flagArg residue (i + k)\<rparr>"
proof (induction ds arbitrary: i k)
  case Nil
  then show ?case by simp
next
  case (Cons d ds)
  then show ?case by (cases k) simp_all
qed

lemma TryParse_preargdefs:
  assumes ne: "cmds g \<noteq> Map.empty"
    and n: "n = (if consumePreargs g residue then length (preargdefs g) else 0)"
    and enough: "n \<le> length residue"
    and run: "TryParse lib residue g = Inr (r, g')"
  shows "preargdefs g' =
           (if consumePreargs g residue then setPreargs residue 0 (preargdefs g)
            else preargdefs g)"
proof (cases "n < length residue")
  case True
  from run show ?thesis
    unfolding TryParse_named [OF ne n True] Let_def
    by (auto split: option.splits sum.splits if_splits)
next
  case False
  with enough have "length residue = n" by simp
  from run TryParse_NoCommand [OF ne n this, of lib] show ?thesis
    by (auto split: if_splits)
qed

lemma TryParse_help_skipped:
  assumes ne: "cmds g \<noteq> Map.empty" and bypass: "helpPreargOverride g"
  shows "TryParse lib [''help''] g =
     (case cmds g ''help'' of
        None \<Rightarrow> Inr (Some \<lparr>Reason = TryParseInvalidCommand, Command = [],
                           Message = ''invalid command: help''\<rparr>, g)
      | Some cont \<Rightarrow>
         (case cmdFlagParse lib (reserveHFlag g) cont ''help'' [] of
            Inl e \<Rightarrow> Inl e
          | Inr fs \<Rightarrow>
             let g2 = g\<lparr>flagHelp := (if reserveHFlag g then Some (BoolValue lib fs ''h'')
                                      else flagHelp g),
                        globals.args := Args lib fs,
                        matchingCmd := Some cont\<rparr> in
             if \<not> set (requiredFlags cont) \<subseteq> set (Visit lib fs) then
                Inr (Some \<lparr>Reason = TryParseInvalidCommand, Command = ''help'',
                           Message = ''help: missing required flags''\<rparr>, g2)
             else (case cmdCont.args cont of
                     None \<Rightarrow> Inr (None, g2)
                   | Some ca \<Rightarrow>
                       (case Validate ca (Args lib fs) of
                          Some err \<Rightarrow>
                            Inr (Some \<lparr>Reason = TryParseArgError, Command = ''help'',
                                       Message = ''help: '' @ err\<rparr>, g2)
                        | None \<Rightarrow> Inr (None, g2)))))"
proof -
  from bypass have skip: "\<not> consumePreargs g [''help'']"
    by (simp add: consumePreargs_def flagArg_def)
  then have n: "0 = (if consumePreargs g [''help''] then length (preargdefs g) else 0)"
    by simp
  have len: "0 < length [''help'']" by simp
  show ?thesis
    unfolding TryParse_named [OF ne n len] Let_def
    using skip by (simp cong: option.case_cong sum.case_cong if_cong)
qed

section \<open>Resolution\<close>

text \<open>
  In the theorems below \<open>n\<close> is the index of the command-name token: the number of
  declared pre-arguments when they are consumed, and 0 when they are skipped.
\<close>

text \<open>
  C10. With no command registered, \<open>TryParse\<close> returns \<open>nil\<close> for every residue and
  leaves every package-level variable as it was: no pre-argument value is written, and
  neither the matched command nor the arguments change.
\<close>

theorem TryParse_no_commands:
  "cmds g = Map.empty \<Longrightarrow> TryParse lib residue g = Inr (None, g)"
  by (simp add: TryParse_def)

theorem TryParse_no_commands_witness:
  "cmds (PreArg ''pa'' ''this is a prearg'' initGlobals :: testFlagSet globals) = Map.empty
   \<and> TryParse testLib [''x'', ''y''] (PreArg ''pa'' ''this is a prearg'' initGlobals)
       = Inr (None, PreArg ''pa'' ''this is a prearg'' initGlobals)"
proof -
  have e: "cmds (PreArg ''pa'' ''this is a prearg'' initGlobals :: testFlagSet globals)
             = Map.empty"
    by (simp add: PreArg_def initGlobals_def)
  from e TryParse_no_commands [OF e, of testLib "[''x'', ''y'']"] show ?thesis by simp
qed

text \<open>
  C8. With a non-empty registry and the pre-arguments being consumed, a residue of
  fewer tokens than declared pre-arguments gives \<open>TryParseNoPreArg\<close> and leaves the
  variables as they were; a residue of exactly that many tokens gives
  \<open>TryParseNoCommand\<close> with every declared value written from its token; and an error
  with one of these two reasons is returned in no other case.
\<close>

theorem TryParse_prearg_outcomes:
  assumes ne: "cmds g \<noteq> Map.empty" and consume: "consumePreargs g residue"
  shows "(length residue < length (preargdefs g) \<longrightarrow>
            TryParse lib residue g =
              Inr (Some \<lparr>Reason = TryParseNoPreArg, Command = [],
                         Message = ''expected '' @ showNat (length (preargdefs g))
                                   @ '' argument(s) before command''\<rparr>, g))
       \<and> (length residue = length (preargdefs g) \<longrightarrow>
            TryParse lib residue g =
              Inr (Some \<lparr>Reason = TryParseNoCommand, Command = [],
                         Message = ''missing command''\<rparr>,
                   g\<lparr>preargdefs := map2 (\<lambda>d t. d\<lparr>val := t\<rparr>) (preargdefs g) residue\<rparr>))
       \<and> (\<forall>e g'. TryParse lib residue g = Inr (Some e, g') \<longrightarrow>
            (Reason e = TryParseNoPreArg \<longleftrightarrow> length residue < length (preargdefs g))
          \<and> (Reason e = TryParseNoCommand \<longleftrightarrow> length residue = length (preargdefs g)))"
proof (intro conjI impI allI)
  assume "length residue < length (preargdefs g)"
  with ne consume show "TryParse lib residue g =
              Inr (Some \<lparr>Reason = TryParseNoPreArg, Command = [],
                         Message = ''expected '' @ showNat (length (preargdefs g))
                                   @ '' argument(s) before command''\<rparr>, g)"
    by (rule TryParse_NoPreArg)
next
  assume eq: "length residue = length (preargdefs g)"
  with consume have "TryParse lib residue g =
     Inr (Some \<lparr>Reason = TryParseNoCommand, Command = [], Message = ''missing command''\<rparr>,
          g\<lparr>preargdefs := setPreargs residue 0 (preargdefs g)\<rparr>)"
    using TryParse_NoCommand [OF ne, of "length (preargdefs g)" residue lib] by simp
  with eq show "TryParse lib residue g =
              Inr (Some \<lparr>Reason = TryParseNoCommand, Command = [],
                         Message = ''missing command''\<rparr>,
                   g\<lparr>preargdefs := map2 (\<lambda>d t. d\<lparr>val := t\<rparr>) (preargdefs g) residue\<rparr>)"
    by (simp add: setPreargs_map2)
next
  fix e g' assume run: "TryParse lib residue g = Inr (Some e, g')"
  consider (few) "length residue < length (preargdefs g)"
    | (eq) "length residue = length (preargdefs g)"
    | (more) "length (preargdefs g) < length residue" by linarith
  then have "(Reason e = TryParseNoPreArg \<longleftrightarrow> length residue < length (preargdefs g))
          \<and> (Reason e = TryParseNoCommand \<longleftrightarrow> length residue = length (preargdefs g))"
  proof cases
    case few
    with run TryParse_NoPreArg [OF ne consume few, of lib] show ?thesis by auto
  next
    case eq
    with run consume TryParse_NoCommand [OF ne, of "length (preargdefs g)" residue lib]
    show ?thesis by auto
  next
    case more
    with consume have n: "length (preargdefs g) = (if consumePreargs g residue then length (preargdefs g) else 0)"
      by simp
    from run more show ?thesis
      unfolding TryParse_named [OF ne n more] Let_def
      by (auto split: option.splits sum.splits if_splits)
  qed
  then show "Reason e = TryParseNoPreArg \<longleftrightarrow> length residue < length (preargdefs g)"
    and "Reason e = TryParseNoCommand \<longleftrightarrow> length residue = length (preargdefs g)"
    by simp_all
qed

theorem TryParse_prearg_outcomes_witness:
  "TryParse testLib []
     (On ''command1'' [] testCmd1 (PreArg ''pa'' ''this is a prearg'' initGlobals))
     = Inr (Some \<lparr>Reason = TryParseNoPreArg, Command = [],
                  Message = ''expected 1 argument(s) before command''\<rparr>,
            On ''command1'' [] testCmd1 (PreArg ''pa'' ''this is a prearg'' initGlobals))
   \<and> TryParse testLib [''prearg'']
       (On ''command1'' [] testCmd1 (PreArg ''pa'' ''this is a prearg'' initGlobals))
     = Inr (Some \<lparr>Reason = TryParseNoCommand, Command = [], Message = ''missing command''\<rparr>,
            (On ''command1'' [] testCmd1 (PreArg ''pa'' ''this is a prearg'' initGlobals))
              \<lparr>preargdefs := [\<lparr>preArgDef.name = ''pa'', preArgDef.desc = ''this is a prearg'',
                               val = ''prearg''\<rparr>]\<rparr>)"
proof -
  let ?g = "On ''command1'' [] testCmd1 (PreArg ''pa'' ''this is a prearg'' initGlobals)"
  have ne: "cmds ?g \<noteq> Map.empty"
    by (simp add: On_def)
  have c0: "consumePreargs ?g []"
    by (simp add: consumePreargs_def On_def PreArg_def initGlobals_def)
  have c1: "consumePreargs ?g [''prearg'']"
    by (simp add: consumePreargs_def On_def PreArg_def initGlobals_def)
  from TryParse_prearg_outcomes [OF ne c0, of testLib]
       TryParse_prearg_outcomes [OF ne c1, of testLib]
  show ?thesis
    by (simp add: On_def PreArg_def initGlobals_def showNat.simps)
qed

text \<open>
  C7. With a non-empty registry and at least \<open>n\<close> residue tokens, a call that returns
  has written, when the pre-arguments are consumed, the value of each declared
  pre-argument from the residue token at its declaration index, and has left the
  declarations untouched when they are skipped. The command name is the token at index
  \<open>n\<close>: without such a token the error is \<open>TryParseNoCommand\<close>; an unregistered token
  at that index is named in the \<open>TryParseInvalidCommand\<close> error; a registered one
  selects the matched command, whose flag parse runs on the tokens after index \<open>n\<close>.
\<close>

theorem TryParse_preargs_then_command:
  assumes ne: "cmds g \<noteq> Map.empty"
    and n: "n = (if consumePreargs g residue then length (preargdefs g) else 0)"
    and enough: "n \<le> length residue"
    and run: "TryParse lib residue g = Inr (r, g')"
  shows "(consumePreargs g residue \<longrightarrow>
            length (preargdefs g') = length (preargdefs g)
            \<and> (\<forall>i<length (preargdefs g).
                   preargdefs g' ! i = (preargdefs g ! i)\<lparr>val := residue ! i\<rparr>))
       \<and> (\<not> consumePreargs g residue \<longrightarrow> preargdefs g' = preargdefs g)
       \<and> (length residue = n \<longrightarrow>
            r = Some \<lparr>Reason = TryParseNoCommand, Command = [],
                      Message = ''missing command''\<rparr>)
       \<and> (n < length residue \<longrightarrow>
            (case cmds g (residue ! n) of
               None \<Rightarrow> r = Some \<lparr>Reason = TryParseInvalidCommand, Command = [],
                                  Message = ''invalid command: '' @ residue ! n\<rparr>
             | Some cont \<Rightarrow>
                 matchingCmd g' = Some cont
                 \<and> (\<exists>fs. cmdFlagParse lib (reserveHFlag g) cont (residue ! n)
                             (drop (n + 1) residue) = Inr fs
                          \<and> globals.args g' = Args lib fs)))"
proof (intro conjI impI)
  assume c: "consumePreargs g residue"
  with TryParse_preargdefs [OF ne n enough run]
  have pd: "preargdefs g' = setPreargs residue 0 (preargdefs g)" by simp
  then show "length (preargdefs g') = length (preargdefs g)"
    by (simp add: length_setPreargs)
  show "\<forall>i<length (preargdefs g). preargdefs g' ! i = (preargdefs g ! i)\<lparr>val := residue ! i\<rparr>"
  proof (intro allI impI)
    fix i assume i: "i < length (preargdefs g)"
    with c n enough have "i < length residue" by simp
    with i pd show "preargdefs g' ! i = (preargdefs g ! i)\<lparr>val := residue ! i\<rparr>"
      by (simp add: nth_setPreargs flagArg_def)
  qed
next
  assume "\<not> consumePreargs g residue"
  with TryParse_preargdefs [OF ne n enough run]
  show "preargdefs g' = preargdefs g" by simp
next
  assume "length residue = n"
  from run TryParse_NoCommand [OF ne n this, of lib]
  show "r = Some \<lparr>Reason = TryParseNoCommand, Command = [], Message = ''missing command''\<rparr>"
    by simp
next
  assume len: "n < length residue"
  from run show "case cmds g (residue ! n) of
               None \<Rightarrow> r = Some \<lparr>Reason = TryParseInvalidCommand, Command = [],
                                  Message = ''invalid command: '' @ residue ! n\<rparr>
             | Some cont \<Rightarrow>
                 matchingCmd g' = Some cont
                 \<and> (\<exists>fs. cmdFlagParse lib (reserveHFlag g) cont (residue ! n)
                             (drop (n + 1) residue) = Inr fs
                          \<and> globals.args g' = Args lib fs)"
    unfolding TryParse_named [OF ne n len] Let_def
    by (auto split: option.splits sum.splits if_splits)
qed

theorem TryParse_preargs_then_command_witness:
  "TryParse testLib [''acme'', ''myrepo'', ''status'']
     (On ''status'' [] testCmd1 (PreArg ''repo'' [] (PreArg ''org'' [] initGlobals)))
     = Inr (None,
         (On ''status'' [] testCmd1 (PreArg ''repo'' [] (PreArg ''org'' [] initGlobals)))
           \<lparr>preargdefs := [\<lparr>preArgDef.name = ''org'', preArgDef.desc = [], val = ''acme''\<rparr>,
                           \<lparr>preArgDef.name = ''repo'', preArgDef.desc = [], val = ''myrepo''\<rparr>],
            flagHelp := Some False, globals.args := [],
            matchingCmd := Some \<lparr>cmdCont.name = ''status'', cmdCont.desc = [],
                                  command = testCmd1, requiredFlags = [],
                                  cmdCont.args = None\<rparr>\<rparr>)
   \<and> map val (preargdefs
         ((On ''status'' [] testCmd1 (PreArg ''repo'' [] (PreArg ''org'' [] initGlobals)))
           \<lparr>preargdefs := [\<lparr>preArgDef.name = ''org'', preArgDef.desc = [], val = ''acme''\<rparr>,
                           \<lparr>preArgDef.name = ''repo'', preArgDef.desc = [], val = ''myrepo''\<rparr>],
            flagHelp := Some False, globals.args := [],
            matchingCmd := Some \<lparr>cmdCont.name = ''status'', cmdCont.desc = [],
                                  command = testCmd1, requiredFlags = [],
                                  cmdCont.args = None\<rparr>\<rparr>))
       = [''acme'', ''myrepo'']"
proof -
  let ?g = "On ''status'' [] testCmd1 (PreArg ''repo'' [] (PreArg ''org'' [] initGlobals))"
  let ?residue = "[''acme'', ''myrepo'', ''status'']"
  let ?g' = "?g\<lparr>preargdefs :=
                   [\<lparr>preArgDef.name = ''org'', preArgDef.desc = [], val = ''acme''\<rparr>,
                    \<lparr>preArgDef.name = ''repo'', preArgDef.desc = [], val = ''myrepo''\<rparr>],
                 flagHelp := Some False, globals.args := [],
                 matchingCmd := Some \<lparr>cmdCont.name = ''status'', cmdCont.desc = [],
                                       command = testCmd1, requiredFlags = [],
                                       cmdCont.args = None\<rparr>\<rparr>"
  have ne: "cmds ?g \<noteq> Map.empty"
    by (simp add: On_def)
  have n: "2 = (if consumePreargs ?g ?residue then length (preargdefs ?g) else 0)"
    by (simp add: consumePreargs_def On_def PreArg_def initGlobals_def)
  have enough: "2 \<le> length ?residue"
    by simp
  have run: "TryParse testLib ?residue ?g = Inr (None, ?g')"
    by (simp add: TryParse_def Let_def consumePreargs_def cmdFlagParse_def flagArg_def
          initGlobals_def testCmd1_def testLib_def On_def PreArg_def)
  from TryParse_preargs_then_command [OF ne n enough run] run show ?thesis
    by simp
qed

section \<open>Required flags and arity\<close>

text \<open>
  C6. When the command-name token names a registered command, its flag parse returns,
  and some required flag of the command is not among the flags the parse set,
  \<open>TryParse\<close> returns \<open>TryParseInvalidCommand\<close> for that command.
\<close>

theorem TryParse_missing_required_flag:
  assumes ne: "cmds g \<noteq> Map.empty"
    and n: "n = (if consumePreargs g residue then length (preargdefs g) else 0)"
    and len: "n < length residue"
    and reg: "cmds g (residue ! n) = Some cont"
    and parse: "cmdFlagParse lib (reserveHFlag g) cont (residue ! n) (drop (n + 1) residue) = Inr fs"
    and missing: "\<exists>flagName\<in>set (requiredFlags cont). flagName \<notin> set (Visit lib fs)"
  shows "\<exists>g'. TryParse lib residue g =
           Inr (Some \<lparr>Reason = TryParseInvalidCommand, Command = residue ! n,
                      Message = residue ! n @ '': missing required flags''\<rparr>, g')"
proof -
  from missing have "\<not> set (requiredFlags cont) \<subseteq> set (Visit lib fs)" by auto
  with reg parse show ?thesis
    unfolding TryParse_named [OF ne n len] Let_def by simp
qed

theorem TryParse_missing_required_flag_witness:
  "\<exists>g'. TryParse testLib [''deploy'', ''prod''] deployGlobals =
          Inr (Some \<lparr>Reason = TryParseInvalidCommand, Command = ''deploy'',
                     Message = ''deploy: missing required flags''\<rparr>, g')"
proof -
  let ?residue = "[''deploy'', ''prod'']"
  let ?fs = "\<lparr>tfFormal = [''force'', ''h''], tfActual = [], tfArgs = [''prod'']\<rparr>"
  have ne: "cmds deployGlobals \<noteq> Map.empty"
    by (simp add: deployGlobals_def)
  have n: "0 = (if consumePreargs deployGlobals ?residue
                then length (preargdefs deployGlobals) else 0)"
    by (simp add: deployGlobals_def initGlobals_def)
  have len: "0 < length ?residue"
    by simp
  have reg: "cmds deployGlobals (?residue ! 0) = Some deployCont"
    by (simp add: deployGlobals_def)
  have parse: "cmdFlagParse testLib (reserveHFlag deployGlobals) deployCont (?residue ! 0)
                 (drop (0 + 1) ?residue) = Inr ?fs"
    by (simp add: cmdFlagParse_def deployGlobals_def initGlobals_def deployCont_def
          testLib_def)
  have missing: "\<exists>flagName\<in>set (requiredFlags deployCont).
                   flagName \<notin> set (Visit testLib ?fs)"
    by (simp add: deployCont_def testLib_def)
  from TryParse_missing_required_flag [OF ne n len reg parse missing] show ?thesis
    by simp
qed

text \<open>
  C2. For a command whose argument specification is \<open>k\<close> Mandatory slots, when the
  command-name token names it, its flag parse returns and every required flag was
  set, \<open>TryParse\<close> returns \<open>TryParseArgError\<close> with the too-few message on fewer than
  \<open>k\<close> positional tokens, \<open>nil\<close> on exactly \<open>k\<close>, and \<open>TryParseArgError\<close> with the
  too-many message on more than \<open>k\<close>.
\<close>

theorem TryParse_mandatory_arity:
  assumes ne: "cmds g \<noteq> Map.empty"
    and n: "n = (if consumePreargs g residue then length (preargdefs g) else 0)"
    and len: "n < length residue"
    and reg: "cmds g (residue ! n) = Some cont"
    and parse: "cmdFlagParse lib (reserveHFlag g) cont (residue ! n) (drop (n + 1) residue) = Inr fs"
    and req: "set (requiredFlags cont) \<subseteq> set (Visit lib fs)"
    and spec: "cmdCont.args cont = Some ca"
    and mand: "\<forall>a\<in>set ca. argType a = atMandatory"
  shows "\<exists>g'. TryParse lib residue g =
           Inr (if length (Args lib fs) < length ca
                  then Some \<lparr>Reason = TryParseArgError, Command = residue ! n,
                             Message = residue ! n @ '': too few arguments''\<rparr>
                else if length (Args lib fs) = length ca then None
                else Some \<lparr>Reason = TryParseArgError, Command = residue ! n,
                           Message = residue ! n @ '': too many arguments''\<rparr>, g')"
  unfolding TryParse_named [OF ne n len] Let_def
  using reg parse req spec Validate_all_mandatory [OF mand, of "Args lib fs"]
  by simp

theorem TryParse_mandatory_arity_witness:
  "\<exists>g'. TryParse testLib [''command1'', ''fla''] command1Globals =
          Inr (Some \<lparr>Reason = TryParseArgError, Command = ''command1'',
                     Message = ''command1: too few arguments''\<rparr>, g')"
proof -
  let ?residue = "[''command1'', ''fla'']"
  let ?fs = "\<lparr>tfFormal = [''flag1'', ''h''], tfActual = [], tfArgs = [''fla'']\<rparr>"
  let ?ca = "[\<lparr>cmdArg.name = ''<this>'', argType = atMandatory\<rparr>,
              \<lparr>cmdArg.name = ''<that>'', argType = atMandatory\<rparr>]"
  have ne: "cmds command1Globals \<noteq> Map.empty"
    by (simp add: command1Globals_def)
  have n: "0 = (if consumePreargs command1Globals ?residue
                then length (preargdefs command1Globals) else 0)"
    by (simp add: command1Globals_def initGlobals_def)
  have len: "0 < length ?residue"
    by simp
  have reg: "cmds command1Globals (?residue ! 0) = Some command1Cont"
    by (simp add: command1Globals_def)
  have parse: "cmdFlagParse testLib (reserveHFlag command1Globals) command1Cont
                 (?residue ! 0) (drop (0 + 1) ?residue) = Inr ?fs"
    by (simp add: cmdFlagParse_def command1Globals_def initGlobals_def command1Cont_def
          testCmd1_def testLib_def)
  have req: "set (requiredFlags command1Cont) \<subseteq> set (Visit testLib ?fs)"
    by (simp add: command1Cont_def)
  have spec: "cmdCont.args command1Cont = Some ?ca"
    by (simp add: command1Cont_def)
  have mand: "\<forall>a\<in>set ?ca. argType a = atMandatory"
    by simp
  from TryParse_mandatory_arity [OF ne n len reg parse req spec mand] show ?thesis
    by (simp add: testLib_def)
qed

section \<open>What a failed call leaves behind\<close>

text \<open>
  C4, as amended. The matched descriptor and the positional arguments are recorded
  right after the per-command flag parse, before the required-flag check and the
  arity check. A call that returns without having matched a command (too few residue
  tokens, or an unregistered command name) returns an error and leaves the matched
  descriptor, the arguments and the help flag as they were; a call that returns after
  matching a command leaves that command and the arguments of its flag parse recorded,
  whatever the two checks decide.
\<close>

theorem TryParse_records_before_checks:
  assumes ne: "cmds g \<noteq> Map.empty"
    and n: "n = (if consumePreargs g residue then length (preargdefs g) else 0)"
    and run: "TryParse lib residue g = Inr (r, g')"
  shows "(length residue \<le> n \<or> (n < length residue \<and> cmds g (residue ! n) = None) \<longrightarrow>
            r \<noteq> None \<and> matchingCmd g' = matchingCmd g
            \<and> globals.args g' = globals.args g \<and> flagHelp g' = flagHelp g)
       \<and> (\<forall>cont. n < length residue \<and> cmds g (residue ! n) = Some cont \<longrightarrow>
            matchingCmd g' = Some cont
            \<and> (\<exists>fs. cmdFlagParse lib (reserveHFlag g) cont (residue ! n)
                        (drop (n + 1) residue) = Inr fs
                     \<and> globals.args g' = Args lib fs))"
proof -
  consider (few) "length residue < n" | (eq) "length residue = n" | (more) "n < length residue"
    by linarith
  then show ?thesis
  proof cases
    case few
    with n have c: "consumePreargs g residue" and l: "length residue < length (preargdefs g)"
      by (simp_all split: if_splits)
    from run few TryParse_NoPreArg [OF ne c l, of lib] show ?thesis by auto
  next
    case eq
    from run eq TryParse_NoCommand [OF ne n eq, of lib] show ?thesis
      by (auto split: if_splits)
  next
    case more
    from run more show ?thesis
      unfolding TryParse_named [OF ne n more] Let_def
      by (auto split: option.splits sum.splits if_splits)
  qed
qed

theorem TryParse_records_before_checks_witness:
  "TryParse testLib [''deploy'', ''-force''] deployGlobals =
     Inr (Some \<lparr>Reason = TryParseArgError, Command = ''deploy'',
                Message = ''deploy: too few arguments''\<rparr>,
          deployGlobals\<lparr>flagHelp := Some False, globals.args := [],
                        matchingCmd := Some deployCont\<rparr>)
   \<and> matchingCmd (deployGlobals\<lparr>flagHelp := Some False, globals.args := [],
                                 matchingCmd := Some deployCont\<rparr>) = Some deployCont"
proof -
  let ?residue = "[''deploy'', ''-force'']"
  have ne: "cmds deployGlobals \<noteq> Map.empty"
    by (simp add: deployGlobals_def)
  have n: "0 = (if consumePreargs deployGlobals ?residue
                then length (preargdefs deployGlobals) else 0)"
    by (simp add: deployGlobals_def initGlobals_def)
  have run: "TryParse testLib ?residue deployGlobals =
     Inr (Some \<lparr>Reason = TryParseArgError, Command = ''deploy'',
                Message = ''deploy: too few arguments''\<rparr>,
          deployGlobals\<lparr>flagHelp := Some False, globals.args := [],
                        matchingCmd := Some deployCont\<rparr>)"
    by (simp add: TryParse_def Let_def consumePreargs_def cmdFlagParse_def flagArg_def
          deployGlobals_def deployCont_def initGlobals_def testLib_def)
  have reg: "0 < length ?residue \<and> cmds deployGlobals (?residue ! 0) = Some deployCont"
    by (simp add: deployGlobals_def)
  from TryParse_records_before_checks [OF ne n run] reg run show ?thesis
    by simp
qed

text \<open>
  C4 as stated fails: the call below returns \<open>TryParseArgError\<close>, and the matched
  command, \<open>nil\<close> before the call, is \<open>command1\<close> after it.
\<close>

theorem TryParse_state_unchanged_counterexample:
  "TryParse testLib [''command1''] command1Globals =
     Inr (Some \<lparr>Reason = TryParseArgError, Command = ''command1'',
                Message = ''command1: too few arguments''\<rparr>,
          command1Globals\<lparr>flagHelp := Some False, globals.args := [],
                          matchingCmd := Some command1Cont\<rparr>)
   \<and> matchingCmd command1Globals = None
   \<and> matchingCmd (command1Globals\<lparr>flagHelp := Some False, globals.args := [],
                                   matchingCmd := Some command1Cont\<rparr>)
       \<noteq> matchingCmd command1Globals"
  by (simp add: TryParse_def Let_def consumePreargs_def cmdFlagParse_def flagArg_def
        command1Globals_def command1Cont_def initGlobals_def testCmd1_def testLib_def)

section \<open>The help bypass\<close>

text \<open>
  C3, as amended. With the help bypass enabled and the residue exactly the token
  \<open>help\<close>: if the registry is not empty and no command \<open>help\<close> is registered,
  \<open>TryParse\<close> returns \<open>TryParseInvalidCommand\<close>; if a command \<open>help\<close> is registered,
  its flag parse of no tokens returns with every required flag of the command set, and
  its argument specification, if it has one, accepts the positional tokens of that
  parse, \<open>TryParse\<close> returns \<open>nil\<close>, and the declared pre-argument values, all at
  their zero value when the call is made, are all at their zero value after it.
\<close>

theorem TryParse_help_bypass:
  assumes bypass: "helpPreargOverride g"
  shows "(cmds g \<noteq> Map.empty \<and> cmds g ''help'' = None \<longrightarrow>
            (\<exists>g'. TryParse lib [''help''] g =
                     Inr (Some \<lparr>Reason = TryParseInvalidCommand, Command = [],
                                Message = ''invalid command: help''\<rparr>, g')))
       \<and> (\<forall>cont fs. cmds g ''help'' = Some cont
                     \<and> cmdFlagParse lib (reserveHFlag g) cont ''help'' [] = Inr fs
                     \<and> set (requiredFlags cont) \<subseteq> set (Visit lib fs)
                     \<and> (\<forall>ca. cmdCont.args cont = Some ca
                                \<longrightarrow> Validate ca (Args lib fs) = None) \<longrightarrow>
            (\<exists>g'. TryParse lib [''help''] g = Inr (None, g')
                   \<and> ((\<forall>d\<in>set (preargdefs g). val d = []) \<longrightarrow>
                        length (preargdefs g') = length (preargdefs g)
                        \<and> (\<forall>d\<in>set (preargdefs g'). val d = []))))"
proof (intro conjI impI allI)
  assume "cmds g \<noteq> Map.empty \<and> cmds g ''help'' = None"
  then show "\<exists>g'. TryParse lib [''help''] g =
                     Inr (Some \<lparr>Reason = TryParseInvalidCommand, Command = [],
                                Message = ''invalid command: help''\<rparr>, g')"
    by (simp add: TryParse_help_skipped [OF _ bypass])
next
  fix cont fs
  assume h: "cmds g ''help'' = Some cont
             \<and> cmdFlagParse lib (reserveHFlag g) cont ''help'' [] = Inr fs
             \<and> set (requiredFlags cont) \<subseteq> set (Visit lib fs)
             \<and> (\<forall>ca. cmdCont.args cont = Some ca \<longrightarrow> Validate ca (Args lib fs) = None)"
  then have ne: "cmds g \<noteq> Map.empty" by auto
  let ?g2 = "g\<lparr>flagHelp := (if reserveHFlag g then Some (BoolValue lib fs ''h'')
                              else flagHelp g),
                globals.args := Args lib fs, matchingCmd := Some cont\<rparr>"
  from h have "TryParse lib [''help''] g = Inr (None, ?g2)"
    unfolding TryParse_help_skipped [OF ne bypass] Let_def
    by (cases "cmdCont.args cont") simp_all
  moreover have "preargdefs ?g2 = preargdefs g" by simp
  ultimately show "\<exists>g'. TryParse lib [''help''] g = Inr (None, g')
                   \<and> ((\<forall>d\<in>set (preargdefs g). val d = []) \<longrightarrow>
                        length (preargdefs g') = length (preargdefs g)
                        \<and> (\<forall>d\<in>set (preargdefs g'). val d = []))"
    by (intro exI [of _ ?g2]) simp
qed

theorem TryParse_help_bypass_witness:
  "TryParse testLib [''help''] helpOverrideGlobals =
     Inr (None,
          helpOverrideGlobals
            \<lparr>globals.args := [],
             matchingCmd := Some \<lparr>cmdCont.name = ''help'',
                                   cmdCont.desc = ''Displays usage string of commands'',
                                   command = cmdUsageCmd, requiredFlags = [],
                                   cmdCont.args = None\<rparr>\<rparr>)
   \<and> map val (preargdefs helpOverrideGlobals) = [[]]"
proof -
  let ?cont = "\<lparr>cmdCont.name = ''help'',
                 cmdCont.desc = ''Displays usage string of commands'',
                 command = cmdUsageCmd, requiredFlags = [],
                 cmdCont.args = None\<rparr> :: testFlagSet cmdCont"
  let ?fs = "\<lparr>tfFormal = [], tfActual = [], tfArgs = []\<rparr>"
  have bypass: "helpPreargOverride helpOverrideGlobals"
    by (simp add: helpOverrideGlobals_def On_def PreArg_def OnHelpShowUsage_def
          OnHelpIgnorePreargs_def)
  have hyps: "cmds helpOverrideGlobals ''help'' = Some ?cont
              \<and> cmdFlagParse testLib (reserveHFlag helpOverrideGlobals) ?cont ''help'' []
                  = Inr ?fs
              \<and> set (requiredFlags ?cont) \<subseteq> set (Visit testLib ?fs)
              \<and> (\<forall>ca. cmdCont.args ?cont = Some ca
                         \<longrightarrow> Validate ca (Args testLib ?fs) = None)"
    by (simp add: helpOverrideGlobals_def On_def PreArg_def OnHelpShowUsage_def
          OnHelpIgnorePreargs_def initGlobals_def cmdFlagParse_def cmdUsageCmd_def
          testLib_def)
  have zero: "\<forall>d\<in>set (preargdefs helpOverrideGlobals). val d = []"
    by (simp add: helpOverrideGlobals_def On_def PreArg_def OnHelpShowUsage_def
          OnHelpIgnorePreargs_def initGlobals_def)
  have run: "TryParse testLib [''help''] helpOverrideGlobals =
     Inr (None,
          helpOverrideGlobals
            \<lparr>globals.args := [], matchingCmd := Some ?cont\<rparr>)"
    by (simp add: TryParse_def Let_def consumePreargs_def cmdFlagParse_def flagArg_def
          helpOverrideGlobals_def On_def PreArg_def OnHelpShowUsage_def
          OnHelpIgnorePreargs_def initGlobals_def cmdUsageCmd_def testLib_def)
  from TryParse_help_bypass [OF bypass, of testLib, THEN conjunct2, rule_format, OF hyps]
       zero run
  show ?thesis
    by (simp add: helpOverrideGlobals_def On_def PreArg_def OnHelpShowUsage_def
          OnHelpIgnorePreargs_def initGlobals_def)
qed

text \<open>
  C3 as stated fails, with the bypass enabled and the residue \<open>help\<close>, in four
  ways. Without a command \<open>help\<close> the error is \<open>TryParseInvalidCommand\<close>, not
  \<open>TryParseNoCommand\<close>; with no command registered at all the result is \<open>nil\<close>. A
  registered command \<open>help\<close> with a Mandatory slot gives \<open>TryParseArgError\<close>, not
  \<open>nil\<close>. And after a call that wrote the pre-argument \<open>x\<close>, the call on \<open>help\<close>
  returns \<open>nil\<close> with that value still \<open>x\<close>, not the empty string.
\<close>

theorem TryParse_help_bypass_counterexample:
  "(helpPreargOverride
      (On ''command1'' [] testCmd1
         (PreArg ''pa'' ''this is a prearg'' (OnHelpIgnorePreargs initGlobals))
       :: testFlagSet globals)
    \<and> cmds (On ''command1'' [] testCmd1
              (PreArg ''pa'' ''this is a prearg'' (OnHelpIgnorePreargs initGlobals))
            :: testFlagSet globals) ''help'' = None
    \<and> TryParse testLib [''help'']
        (On ''command1'' [] testCmd1
           (PreArg ''pa'' ''this is a prearg'' (OnHelpIgnorePreargs initGlobals)))
      = Inr (Some \<lparr>Reason = TryParseInvalidCommand, Command = [],
                   Message = ''invalid command: help''\<rparr>,
             On ''command1'' [] testCmd1
               (PreArg ''pa'' ''this is a prearg'' (OnHelpIgnorePreargs initGlobals))))
   \<and> (TryParse testLib [''help''] (OnHelpIgnorePreargs initGlobals)
        = Inr (None, OnHelpIgnorePreargs initGlobals))
   \<and> (helpPreargOverride helpTopicGlobals
      \<and> cmds helpTopicGlobals ''help'' = Some helpTopicCont
      \<and> TryParse testLib [''help''] helpTopicGlobals
        = Inr (Some \<lparr>Reason = TryParseArgError, Command = ''help'',
                     Message = ''help: too few arguments''\<rparr>,
               helpTopicGlobals\<lparr>flagHelp := Some False, globals.args := [],
                                matchingCmd := Some helpTopicCont\<rparr>))
   \<and> (TryParse testLib [''x'', ''command1''] helpOverrideGlobals
        = Inr (None,
               helpOverrideGlobals
                 \<lparr>preargdefs := [\<lparr>preArgDef.name = ''pa'',
                                   preArgDef.desc = ''this is a prearg'', val = ''x''\<rparr>],
                  globals.args := [],
                  matchingCmd := cmds helpOverrideGlobals ''command1''\<rparr>)
      \<and> TryParse testLib [''help'']
          (helpOverrideGlobals
             \<lparr>preargdefs := [\<lparr>preArgDef.name = ''pa'',
                               preArgDef.desc = ''this is a prearg'', val = ''x''\<rparr>],
              globals.args := [],
              matchingCmd := cmds helpOverrideGlobals ''command1''\<rparr>)
        = Inr (None,
               helpOverrideGlobals
                 \<lparr>preargdefs := [\<lparr>preArgDef.name = ''pa'',
                                   preArgDef.desc = ''this is a prearg'', val = ''x''\<rparr>],
                  globals.args := [],
                  matchingCmd := cmds helpOverrideGlobals ''help''\<rparr>)
      \<and> cmds helpOverrideGlobals ''help'' \<noteq> None)"
  by (simp add: TryParse_def Let_def consumePreargs_def cmdFlagParse_def flagArg_def
        helpOverrideGlobals_def helpTopicGlobals_def helpTopicCont_def
        initGlobals_def testCmd1_def testLib_def cmdUsageCmd_def On_def PreArg_def
        OnHelpIgnorePreargs_def OnHelpShowUsage_def)

end
